theory Spec2Isabelle
  imports Main "HOL-Library.Word"
begin

unbundle bit_operations_syntax

section \<open>Data model of \<^verbatim>\<open>server/server.py\<close>\<close>

text \<open>
  The script handles JSON-like Python values only: the dict literals of the builders and
  whatever \<^verbatim>\<open>json.loads\<close> returns. A Python \<^verbatim>\<open>dict\<close> keeps its keys in insertion order,
  so it is modelled as an association list; \<^verbatim>\<open>None\<close> is \<open>JNull\<close>. A Python float is kept
  as its 64-bit IEEE pattern: the script never computes with it, it only tests its truth
  value. A Python dict holds each key once; an association list with a repeated key is read
  at the first occurrence, and no statement below relies on keys being distinct.
\<close>

datatype json =
    JNull
  | JBool bool
  | JInt int
  | JFloat "64 word"
  | JStr string
  | JArr "json list"
  | JObj "(string \<times> json) list"

text \<open>The exceptions that can travel through the script.\<close>

datatype error =
    JSONDecodeError
  | AttributeError
  | KeyError string
  | TypeError
  | OtherError string

text \<open>
  Python's truth value of an object, as tested by \<^verbatim>\<open>if link:\<close>: \<^verbatim>\<open>None\<close>, \<^verbatim>\<open>False\<close>,
  zero (the floats \<^verbatim>\<open>0.0\<close> and \<^verbatim>\<open>-0.0\<close> are all bits clear but possibly the sign),
  the empty string, the empty list and the empty dict are false; everything else is true.
\<close>

fun truthy :: "json \<Rightarrow> bool" where
  "truthy JNull = False"
| "truthy (JBool b) = b"
| "truthy (JInt i) = (i \<noteq> 0)"
| "truthy (JFloat w) = (w AND 0x7FFFFFFFFFFFFFFF \<noteq> 0)"
| "truthy (JStr s) = (s \<noteq> [])"
| "truthy (JArr xs) = (xs \<noteq> [])"
| "truthy (JObj d) = (d \<noteq> [])"

text \<open>
  \<^verbatim>\<open>d[k] = v\<close> on a dict: an existing key keeps its position and gets the new value,
  a new key is appended.
\<close>

fun dict_setitem :: "(string \<times> json) list \<Rightarrow> string \<Rightarrow> json \<Rightarrow> (string \<times> json) list" where
  "dict_setitem [] k v = [(k, v)]"
| "dict_setitem ((k', v') # d) k v =
     (if k' = k then (k, v) # d else (k', v') # dict_setitem d k v)"

text \<open>
  \<^verbatim>\<open>obj[p1]...[pn][k] = v\<close>: the subscripts \<open>p1 ... pn\<close> are read (\<^verbatim>\<open>KeyError\<close> on a
  missing key, \<^verbatim>\<open>TypeError\<close> on a value that is no dict), then the item is stored. The
  nested dicts of the builders are not shared with anything else, so the in-place update
  is the update of the value.
\<close>

fun setitem_path :: "json \<Rightarrow> string list \<Rightarrow> string \<Rightarrow> json \<Rightarrow> error + json" where
  "setitem_path (JObj d) [] k v = Inr (JObj (dict_setitem d k v))"
| "setitem_path (JObj d) (p # ps) k v =
     (case map_of d p of
        None \<Rightarrow> Inl (KeyError p)
      | Some sub \<Rightarrow>
          (case setitem_path sub ps k v of
             Inl e \<Rightarrow> Inl e
           | Inr sub' \<Rightarrow> Inr (JObj (dict_setitem d p sub'))))"
| "setitem_path _ _ _ _ = Inl TypeError"

text \<open>Reading \<^verbatim>\<open>obj[p1]...[pn]\<close>; \<open>None\<close> when a key is absent or a value is no dict.\<close>

fun lookup_path :: "json \<Rightarrow> string list \<Rightarrow> json option" where
  "lookup_path j [] = Some j"
| "lookup_path (JObj d) (p # ps) =
     (case map_of d p of None \<Rightarrow> None | Some sub \<Rightarrow> lookup_path sub ps)"
| "lookup_path _ (p # ps) = None"

text \<open>Every dict key that occurs in a value, at any depth.\<close>

fun all_keys :: "json \<Rightarrow> string list"
  and all_keys_list :: "json list \<Rightarrow> string list"
  and all_keys_dict :: "(string \<times> json) list \<Rightarrow> string list" where
  "all_keys (JArr xs) = all_keys_list xs"
| "all_keys (JObj d) = all_keys_dict d"
| "all_keys JNull = []"
| "all_keys (JBool b) = []"
| "all_keys (JInt i) = []"
| "all_keys (JFloat w) = []"
| "all_keys (JStr s) = []"
| "all_keys_list [] = []"
| "all_keys_list (x # xs) = all_keys x @ all_keys_list xs"
| "all_keys_dict [] = []"
| "all_keys_dict ((k, v) # d) = k # all_keys v @ all_keys_dict d"

section \<open>The message builders\<close>

text \<open>\<^verbatim>\<open>_build_common_message()\<close>: the dict literal of lines 76 to 84.\<close>

definition build_common_message :: json where
  "build_common_message =
     JObj [(''message'', JObj [
       (''topic'', JStr ''news''),
       (''notification'', JObj [
          (''title'', JStr ''FCM Notification''),
          (''body'', JStr ''Notification from FCM'')])])]"

text \<open>
  \<^verbatim>\<open>_build_override_message()\<close>: the common message, then the two subscript
  assignments of lines 112 and 113.
\<close>

definition build_override_message :: "error + json" where
  "build_override_message =
     (let fcm_message = build_common_message;
          apns_override = JObj [
            (''payload'', JObj [(''aps'', JObj [(''badge'', JInt 1)])]),
            (''headers'', JObj [(''apns-priority'', JStr ''10'')])];
          android_override = JObj [
            (''notification'', JObj [(''click_action'', JStr ''android.intent.action.MAIN'')])]
      in case setitem_path fcm_message [''message''] ''android'' android_override of
           Inl e \<Rightarrow> Inl e
         | Inr fcm_message \<Rightarrow>
             (case setitem_path fcm_message [''message''] ''apns'' apns_override of
                Inl e \<Rightarrow> Inl e
              | Inr fcm_message \<Rightarrow> Inr fcm_message))"

text \<open>
  \<^verbatim>\<open>_build_common_custom_message(title, body, topic, data, link, icon)\<close>: the dict
  literal of lines 119 to 129, then the two guarded subscript assignments.
\<close>

definition build_common_custom_message ::
  "json \<Rightarrow> json \<Rightarrow> json \<Rightarrow> json \<Rightarrow> json \<Rightarrow> json \<Rightarrow> error + json" where
  "build_common_custom_message title body topic data link icon =
     (let message = JObj [(''message'', JObj [
            (''topic'', topic),
            (''notification'', JObj [(''title'', title), (''body'', body)]),
            (''data'', data),
            (''delivery_receipt_requested'', JBool True)])]
      in case (if truthy link
               then setitem_path message [''message'', ''notification''] ''click_action'' link
               else Inr message) of
           Inl e \<Rightarrow> Inl e
         | Inr message \<Rightarrow>
             (if truthy icon
              then setitem_path message [''message'', ''notification''] ''icon'' icon
              else Inr message))"

section \<open>The world outside the script\<close>

text \<open>
  What the script prints and which calls it makes that can reach the network, in the
  order they happen: a line given to \<^verbatim>\<open>print\<close>, a call of \<^verbatim>\<open>_get_access_token\<close> (the OAuth2
  exchange of \<^verbatim>\<open>oauth2client\<close>), a call of \<^verbatim>\<open>requests.post\<close> with its URL, body and headers.
\<close>

datatype event =
    Print string
  | GetAccessToken
  | Post string string "(string \<times> string) list"

fun is_network_call :: "event \<Rightarrow> bool" where
  "is_network_call (Print s) = False"
| "is_network_call GetAccessToken = True"
| "is_network_call (Post url body headers) = True"

definition network_calls :: "event list \<Rightarrow> event list" where
  "network_calls tr = filter is_network_call tr"

fun posts :: "event list \<Rightarrow> (string \<times> string \<times> (string \<times> string) list) list" where
  "posts [] = []"
| "posts (Post url body headers # tr) = (url, body, headers) # posts tr"
| "posts (e # tr) = posts tr"

text \<open>The two attributes of a \<^verbatim>\<open>requests\<close> response that the script reads.\<close>

record response =
  status_code :: int
  resp_text :: string

text \<open>
  Everything the script takes from its libraries and from the machine it runs on is a
  parameter: the project id read from the service-account file when the module is loaded,
  \<^verbatim>\<open>json.loads\<close>, \<^verbatim>\<open>json.dumps\<close> (with its \<^verbatim>\<open>indent\<close> argument), the outcome of the token
  exchange and the answer of the HTTP endpoint. A library call that raises returns \<open>Inl\<close>.
\<close>

record env =
  PROJECT_ID :: string
  json_loads :: "string \<Rightarrow> error + json"
  json_dumps :: "nat option \<Rightarrow> json \<Rightarrow> string"
  access_token :: "error + string"
  requests_post :: "string \<Rightarrow> string \<Rightarrow> (string \<times> string) list \<Rightarrow> error + response"

definition BASE_URL :: string where
  "BASE_URL = ''https://fcm.googleapis.com''"

definition FCM_ENDPOINT :: "env \<Rightarrow> string" where
  "FCM_ENDPOINT env = ''v1/projects/'' @ PROJECT_ID env @ ''/messages:send''"

definition FCM_URL :: "env \<Rightarrow> string" where
  "FCM_URL env = BASE_URL @ ''/'' @ FCM_ENDPOINT env"

text \<open>
  A statement of the script takes the events so far and returns them extended, together
  with its value or the exception it raised; an exception ends the statements that follow.
\<close>

type_synonym 'a io = "event list \<Rightarrow> (error + 'a) \<times> event list"

definition io_lift :: "error + 'a \<Rightarrow> 'a io" where
  "io_lift r = (\<lambda>tr. (r, tr))"

definition io_bind :: "'a io \<Rightarrow> ('a \<Rightarrow> 'b io) \<Rightarrow> 'b io" where
  "io_bind m f = (\<lambda>tr. case m tr of
                          (Inl e, tr') \<Rightarrow> (Inl e, tr')
                        | (Inr x, tr') \<Rightarrow> f x tr')"

definition io_then :: "unit io \<Rightarrow> 'b io \<Rightarrow> 'b io" where
  "io_then m k = io_bind m (\<lambda>_. k)"

definition print :: "string \<Rightarrow> unit io" where
  "print s = (\<lambda>tr. (Inr (), tr @ [Print s]))"

text \<open>\<^verbatim>\<open>_get_access_token()\<close>: the token, or the exception of the exchange.\<close>

definition get_access_token :: "env \<Rightarrow> string io" where
  "get_access_token env = (\<lambda>tr. (access_token env, tr @ [GetAccessToken]))"

definition post :: "env \<Rightarrow> string \<Rightarrow> string \<Rightarrow> (string \<times> string) list \<Rightarrow> response io" where
  "post env url body headers =
     (\<lambda>tr. (requests_post env url body headers, tr @ [Post url body headers]))"

text \<open>
  \<^verbatim>\<open>message_params.get(key)\<close>: on a dict the value of the key, \<^verbatim>\<open>None\<close> when the key is
  missing; any other JSON value has no attribute \<^verbatim>\<open>get\<close>.
\<close>

definition dict_get :: "(string \<times> json) list \<Rightarrow> string \<Rightarrow> json" where
  "dict_get d k = (case map_of d k of None \<Rightarrow> JNull | Some v \<Rightarrow> v)"

fun py_get :: "json \<Rightarrow> string \<Rightarrow> error + json" where
  "py_get (JObj d) k = Inr (dict_get d k)"
| "py_get _ k = Inl AttributeError"

text \<open>Whether a value is a dict, that is, whether it has the method \<^verbatim>\<open>get\<close>.\<close>

fun is_dict :: "json \<Rightarrow> bool" where
  "is_dict (JObj d) = True"
| "is_dict _ = False"

section \<open>Sending and the command line\<close>

text \<open>
  \<^verbatim>\<open>_send_fcm_message(fcm_message)\<close>: the headers are built first (this asks for the
  token), then the message is serialised and posted, then one of two lines and the
  response text are printed.
\<close>

definition send_fcm_message :: "env \<Rightarrow> json \<Rightarrow> unit io" where
  "send_fcm_message env fcm_message =
     io_bind (get_access_token env) (\<lambda>token.
       let headers = [(''Authorization'', ''Bearer '' @ token),
                      (''Content-Type'', ''application/json; UTF-8'')]
       in io_bind (post env (FCM_URL env) (json_dumps env None fcm_message) headers) (\<lambda>resp.
            if status_code resp = 200
            then io_then (print ''Message sent to Firebase for delivery, response:'')
                   (print (resp_text resp))
            else io_then (print ''Unable to send message to Firebase'')
                   (print (resp_text resp))))"

text \<open>The text printed by the last branch of \<^verbatim>\<open>main\<close> (one string of three lines).\<close>

definition usage :: string where
  "usage = ''Invalid command. Please use one of the following commands:'' @ [CHR 0x0A]
         @ ''python messaging.py --message=common-message'' @ [CHR 0x0A]
         @ ''python messaging.py --message=override-message''"

text \<open>
  The truth value of \<^verbatim>\<open>args.message\<close>, which \<^verbatim>\<open>argparse\<close> sets to \<^verbatim>\<open>None\<close> when the flag is
  not given and to the string of the flag otherwise.
\<close>

fun arg_truthy :: "string option \<Rightarrow> bool" where
  "arg_truthy None = False"
| "arg_truthy (Some s) = (s \<noteq> [])"

text \<open>
  \<^verbatim>\<open>main()\<close>, from the parsed argument on. The third branch is taken by every non-empty
  value that is neither of the two fixed names.
\<close>

definition main :: "env \<Rightarrow> string option \<Rightarrow> unit io" where
  "main env message =
     (if arg_truthy message \<and> message = Some ''common-message'' then
        (let common_message = build_common_message
         in io_then (print ''FCM request body for message using common notification object:'')
           (io_then (print (json_dumps env (Some 2) common_message))
           (send_fcm_message env common_message)))
      else if arg_truthy message \<and> message = Some ''override-message'' then
        io_bind (io_lift build_override_message) (\<lambda>override_message.
          io_then (print ''FCM request body for override message:'')
          (io_then (print (json_dumps env (Some 2) override_message))
          (send_fcm_message env override_message)))
      else if arg_truthy message then
        io_then (print ''Send custom message.'')
        (io_bind (io_lift (case message of None \<Rightarrow> Inl TypeError
                                        | Some s \<Rightarrow> json_loads env s)) (\<lambda>message_params.
         io_bind (io_lift (py_get message_params ''title'')) (\<lambda>title.
         io_bind (io_lift (py_get message_params ''body'')) (\<lambda>body.
         io_bind (io_lift (py_get message_params ''topic'')) (\<lambda>topic.
         io_bind (io_lift (py_get message_params ''data'')) (\<lambda>data.
         io_bind (io_lift (py_get message_params ''link'')) (\<lambda>link.
         io_bind (io_lift (py_get message_params ''icon'')) (\<lambda>icon.
         io_bind (io_lift (build_common_custom_message title body topic data link icon))
           (\<lambda>common_message.
         io_then (print ''FCM request body for message using common notification object:'')
         (io_then (print (json_dumps env (Some 2) common_message))
         (send_fcm_message env common_message)))))))))))
      else print usage)"

section \<open>A sample environment\<close>

text \<open>
  The closed instances below run the script in one fixed environment: project id
  \<^verbatim>\<open>demo-project\<close>, a token exchange that yields \<^verbatim>\<open>ya29.token\<close> and an endpoint that
  answers every request with status 200. Its \<^verbatim>\<open>json.loads\<close> and \<^verbatim>\<open>json.dumps\<close> are tables
  of what CPython returns on the command lines and payloads that occur in those instances:
  two command lines parse, the others used there (\<^verbatim>\<open>foo\<close> and an object with its closing
  brace missing) are not JSON. The environment is used at no other argument.
\<close>

definition join_lines :: "string list \<Rightarrow> string" where
  "join_lines ls = concat (map (\<lambda>l. CHR 0x0A # l) ls)"

definition sample_json_loads :: "string \<Rightarrow> error + json" where
  \<open>sample_json_loads s =
     (if s = ''{"link": "https://x"}'' then Inr (JObj [(''link'', JStr ''https://x'')])
      else if s = ''[]'' then Inr (JArr [])
      else Inl JSONDecodeError)\<close>

definition sample_custom_message :: json where
  "sample_custom_message =
     JObj [(''message'', JObj [
       (''topic'', JNull),
       (''notification'', JObj [
          (''title'', JNull),
          (''body'', JNull),
          (''click_action'', JStr ''https://x'')]),
       (''data'', JNull),
       (''delivery_receipt_requested'', JBool True)])]"

definition sample_json_dumps :: "nat option \<Rightarrow> json \<Rightarrow> string" where
  \<open>sample_json_dumps indent j =
     (if indent = None \<and> j = build_common_message then
        ''{"message": {"topic": "news", "notification": {"title": "FCM Notification", "body": "Notification from FCM"}}}''
      else if indent = Some 2 \<and> j = build_common_message then
        ''{'' @ join_lines [
          ''  "message": {'',
          ''    "topic": "news",'',
          ''    "notification": {'',
          ''      "title": "FCM Notification",'',
          ''      "body": "Notification from FCM"'',
          ''    }'',
          ''  }'',
          ''}'']
      else if indent = None \<and> j = sample_custom_message then
        ''{"message": {"topic": null, "notification": {"title": null, "body": null, "click_action": "https://x"}, "data": null, "delivery_receipt_requested": true}}''
      else if indent = Some 2 \<and> j = sample_custom_message then
        ''{'' @ join_lines [
          ''  "message": {'',
          ''    "topic": null,'',
          ''    "notification": {'',
          ''      "title": null,'',
          ''      "body": null,'',
          ''      "click_action": "https://x"'',
          ''    },'',
          ''    "data": null,'',
          ''    "delivery_receipt_requested": true'',
          ''  }'',
          ''}'']
      else [])\<close>

definition sample_response :: response where
  \<open>sample_response =
     \<lparr>status_code = 200, resp_text = ''{"name": "projects/demo-project/messages/1"}''\<rparr>\<close>

definition sample_env :: env where
  "sample_env = \<lparr>
     PROJECT_ID = ''demo-project'',
     json_loads = sample_json_loads,
     json_dumps = sample_json_dumps,
     access_token = Inr ''ya29.token'',
     requests_post = (\<lambda>url body headers. Inr sample_response)\<rparr>"

text \<open>The same environment with an endpoint that refuses every request.\<close>

definition sample_refusal :: response where
  \<open>sample_refusal =
     \<lparr>status_code = 403, resp_text = ''{"error": {"code": 403, "status": "PERMISSION_DENIED"}}''\<rparr>\<close>

definition sample_env_403 :: env where
  "sample_env_403 = sample_env\<lparr>requests_post := (\<lambda>url body headers. Inr sample_refusal)\<rparr>"

section \<open>Properties of the builders\<close>

text \<open>
  C1. The custom builder called with title "T", body "B", topic "promo", data {"k": "v"},
  link "https://x" and icon "ic_x" returns exactly the envelope of the specification, keys
  in the order written there, with \<^verbatim>\<open>delivery_receipt_requested\<close> true; that key occurs
  nowhere in the output of the common builder nor of the override builder.
\<close>

theorem custom_message_all_fields:
  "build_common_custom_message (JStr ''T'') (JStr ''B'') (JStr ''promo'')
       (JObj [(''k'', JStr ''v'')]) (JStr ''https://x'') (JStr ''ic_x'')
     = Inr (JObj [(''message'', JObj [
         (''topic'', JStr ''promo''),
         (''notification'', JObj [
            (''title'', JStr ''T''),
            (''body'', JStr ''B''),
            (''click_action'', JStr ''https://x''),
            (''icon'', JStr ''ic_x'')]),
         (''data'', JObj [(''k'', JStr ''v'')]),
         (''delivery_receipt_requested'', JBool True)])])
   \<and> ''delivery_receipt_requested'' \<notin> set (all_keys build_common_message)
   \<and> (\<exists>m. build_override_message = Inr m
          \<and> ''delivery_receipt_requested'' \<notin> set (all_keys m))"
  by (simp add: build_common_custom_message_def build_override_message_def
      build_common_message_def)

text \<open>
  C2. The override builder returns the common builder's envelope with exactly two keys
  appended to the object under \<^verbatim>\<open>message\<close>: \<^verbatim>\<open>android\<close>, whose
  \<^verbatim>\<open>notification.click_action\<close> is "android.intent.action.MAIN", and \<^verbatim>\<open>apns\<close>, whose
  \<^verbatim>\<open>payload.aps.badge\<close> is 1 and whose header \<^verbatim>\<open>apns-priority\<close> is "10"; the fields of the
  common envelope are the same, in the same order.
\<close>

theorem override_message_extends_common:
  "\<exists>inner. build_common_message = JObj [(''message'', JObj inner)]
     \<and> build_override_message = Inr (JObj [(''message'', JObj (inner @ [
          (''android'', JObj [
             (''notification'', JObj [(''click_action'', JStr ''android.intent.action.MAIN'')])]),
          (''apns'', JObj [
             (''payload'', JObj [(''aps'', JObj [(''badge'', JInt 1)])]),
             (''headers'', JObj [(''apns-priority'', JStr ''10'')])])]))])
     \<and> map_of inner ''android'' = None \<and> map_of inner ''apns'' = None"
  by (simp add: build_override_message_def build_common_message_def)

text \<open>
  C3. In the common builder's output \<^verbatim>\<open>message.topic\<close> is "news", and none of the keys
  \<^verbatim>\<open>android\<close>, \<^verbatim>\<open>apns\<close>, \<^verbatim>\<open>data\<close> occurs at any depth of the envelope.
\<close>

theorem common_message_shape:
  "lookup_path build_common_message [''message'', ''topic''] = Some (JStr ''news'')
   \<and> ''android'' \<notin> set (all_keys build_common_message)
   \<and> ''apns'' \<notin> set (all_keys build_common_message)
   \<and> ''data'' \<notin> set (all_keys build_common_message)"
  by (simp add: build_common_message_def)

text \<open>
  C4. Whenever the link given to the custom builder is false in Python's sense (\<^verbatim>\<open>None\<close>,
  which is what \<^verbatim>\<open>message_params.get('link')\<close> yields for an omitted key or a JSON null,
  or the empty string), the builder succeeds and the \<^verbatim>\<open>notification\<close> object of its output
  has no key \<^verbatim>\<open>click_action\<close> at all; likewise a false icon leaves no key \<^verbatim>\<open>icon\<close>.
\<close>

theorem custom_message_omits_link_icon:
  "(\<not> truthy link \<longrightarrow>
      (\<exists>m n. build_common_custom_message title body topic data link icon = Inr m
         \<and> lookup_path m [''message'', ''notification''] = Some (JObj n)
         \<and> map_of n ''click_action'' = None))
   \<and> (\<not> truthy icon \<longrightarrow>
      (\<exists>m n. build_common_custom_message title body topic data link icon = Inr m
         \<and> lookup_path m [''message'', ''notification''] = Some (JObj n)
         \<and> map_of n ''icon'' = None))
   \<and> (map_of d ''link'' = None \<or> map_of d ''link'' = Some JNull
        \<or> map_of d ''link'' = Some (JStr []) \<longrightarrow>
      py_get (JObj d) ''link'' \<in> {Inr JNull, Inr (JStr [])}
      \<and> \<not> truthy (dict_get d ''link''))
   \<and> (map_of d ''icon'' = None \<or> map_of d ''icon'' = Some JNull
        \<or> map_of d ''icon'' = Some (JStr []) \<longrightarrow>
      py_get (JObj d) ''icon'' \<in> {Inr JNull, Inr (JStr [])}
      \<and> \<not> truthy (dict_get d ''icon''))"
  by (cases "truthy link"; cases "truthy icon")
    (auto simp: build_common_custom_message_def dict_get_def)

theorem custom_message_omits_link_icon_witness:
  "\<not> truthy JNull \<and> \<not> truthy (JStr [])
   \<and> map_of [(''title'', JStr ''T''), (''icon'', JStr [])] ''link'' = None
   \<and> map_of [(''title'', JStr ''T''), (''icon'', JStr [])] ''icon'' = Some (JStr [])
   \<and> py_get (JObj [(''title'', JStr ''T''), (''icon'', JStr [])]) ''link'' = Inr JNull
   \<and> py_get (JObj [(''title'', JStr ''T''), (''icon'', JStr [])]) ''icon'' = Inr (JStr [])
   \<and> (\<exists>m n. build_common_custom_message (JStr ''T'') JNull JNull JNull JNull (JStr []) = Inr m
         \<and> lookup_path m [''message'', ''notification''] = Some (JObj n)
         \<and> map_of n ''click_action'' = None \<and> map_of n ''icon'' = None)"
  using custom_message_omits_link_icon
    [of JNull "JStr ''T''" JNull JNull JNull "JStr []"
        "[(''title'', JStr ''T''), (''icon'', JStr [])]"]
  by (simp add: dict_get_def build_common_custom_message_def)

text \<open>
  C9. Each of the three builders returns an object whose only key is \<^verbatim>\<open>message\<close>, bound to
  an object that has the key \<^verbatim>\<open>topic\<close>; for the custom builder this holds for every choice
  of its six arguments.
\<close>

theorem envelope_has_message_topic:
  "(\<exists>inner. build_common_message = JObj [(''message'', JObj inner)]
      \<and> map_of inner ''topic'' \<noteq> None)
   \<and> (\<exists>inner. build_override_message = Inr (JObj [(''message'', JObj inner)])
      \<and> map_of inner ''topic'' \<noteq> None)
   \<and> (\<exists>inner. build_common_custom_message title body topic data link icon
                 = Inr (JObj [(''message'', JObj inner)])
      \<and> map_of inner ''topic'' \<noteq> None)"
  by (cases "truthy link"; cases "truthy icon")
    (simp_all add: build_common_message_def build_override_message_def
      build_common_custom_message_def)

section \<open>Properties of sending and of the command line\<close>

text \<open>How each branch of \<^verbatim>\<open>main\<close> reaches \<^verbatim>\<open>_send_fcm_message\<close>.\<close>

lemma build_custom_total:
  "\<exists>m. build_common_custom_message title body topic data link icon = Inr m"
  by (cases "truthy link"; cases "truthy icon")
    (simp_all add: build_common_custom_message_def)

lemma main_common:
  "main env (Some ''common-message'') [] =
     send_fcm_message env build_common_message
       [Print ''FCM request body for message using common notification object:'',
        Print (json_dumps env (Some 2) build_common_message)]"
  by (simp add: main_def io_then_def io_bind_def print_def)

lemma main_override:
  assumes "build_override_message = Inr m"
  shows "main env (Some ''override-message'') [] =
     send_fcm_message env m
       [Print ''FCM request body for override message:'',
        Print (json_dumps env (Some 2) m)]"
  by (simp add: main_def io_then_def io_bind_def print_def io_lift_def assms)

lemma main_custom:
  assumes "s \<noteq> []" "s \<noteq> ''common-message''" "s \<noteq> ''override-message''"
      and "json_loads env s = Inr (JObj d)"
      and "build_common_custom_message (dict_get d ''title'') (dict_get d ''body'')
             (dict_get d ''topic'') (dict_get d ''data'') (dict_get d ''link'')
             (dict_get d ''icon'') = Inr m"
  shows "main env (Some s) [] =
     send_fcm_message env m
       [Print ''Send custom message.'',
        Print ''FCM request body for message using common notification object:'',
        Print (json_dumps env (Some 2) m)]"
  using assms by (simp add: main_def io_then_def io_bind_def print_def io_lift_def)

lemma main_custom_raises:
  assumes "s \<noteq> []" "s \<noteq> ''common-message''" "s \<noteq> ''override-message''"
      and "json_loads env s = Inl e"
  shows "main env (Some s) [] = (Inl e, [Print ''Send custom message.''])"
  using assms by (simp add: main_def io_then_def io_bind_def print_def io_lift_def)

lemma main_custom_no_dict:
  assumes "s \<noteq> []" "s \<noteq> ''common-message''" "s \<noteq> ''override-message''"
      and "json_loads env s = Inr j" and "\<not> is_dict j"
  shows "main env (Some s) [] = (Inl AttributeError, [Print ''Send custom message.''])"
  using assms
  by (cases j) (simp_all add: main_def io_then_def io_bind_def print_def io_lift_def)

lemma send_starts_with_token:
  "\<exists>r rest. send_fcm_message env m tr = (r, tr @ GetAccessToken # rest)"
  by (simp add: send_fcm_message_def io_bind_def io_then_def print_def get_access_token_def
      post_def Let_def split: sum.splits prod.splits)

lemma send_answered:
  assumes "access_token env = Inr token"
      and "requests_post env (FCM_URL env) (json_dumps env None m)
             [(''Authorization'', ''Bearer '' @ token),
              (''Content-Type'', ''application/json; UTF-8'')] = Inr resp"
  shows "send_fcm_message env m tr = (Inr (), tr @
     [GetAccessToken,
      Post (FCM_URL env) (json_dumps env None m)
        [(''Authorization'', ''Bearer '' @ token),
         (''Content-Type'', ''application/json; UTF-8'')],
      Print (if status_code resp = 200
             then ''Message sent to Firebase for delivery, response:''
             else ''Unable to send message to Firebase''),
      Print (resp_text resp)])"
  using assms
  by (simp add: send_fcm_message_def io_bind_def io_then_def print_def get_access_token_def
      post_def Let_def)

lemma build_custom_shape:
  "\<exists>inner n. build_common_custom_message title body topic data link icon
         = Inr (JObj [(''message'', JObj inner)])
     \<and> map_of inner ''notification'' = Some (JObj n)
     \<and> map_of n ''title'' = Some title \<and> map_of n ''body'' = Some body
     \<and> map_of inner ''topic'' = Some topic \<and> map_of inner ''data'' = Some data
     \<and> map_of n ''click_action'' = (if truthy link then Some link else None)
     \<and> map_of n ''icon'' = (if truthy icon then Some icon else None)"
  by (cases "truthy link"; cases "truthy icon")
    (simp_all add: build_common_custom_message_def)

lemma dict_get_missing: "map_of d k = None \<Longrightarrow> dict_get d k = JNull"
  by (simp add: dict_get_def)

text \<open>
  C5, as the code has it. Without the flag, or with an empty value, \<^verbatim>\<open>main\<close> prints the usage
  text and nothing else, and makes no call that can reach the network. Every other value
  that is neither \<^verbatim>\<open>common-message\<close> nor \<^verbatim>\<open>override-message\<close> is taken as a custom message:
  the first line printed is "Send custom message.", not the usage text; when the value
  does not parse as JSON, or parses to something that is no object, the run ends with the
  exception and no call reaches the network.
\<close>

theorem usage_only_without_message:
  "(message = None \<or> message = Some [] \<longrightarrow>
      main env message [] = (Inr (), [Print usage])
      \<and> network_calls (snd (main env message [])) = [])
   \<and> (s \<noteq> [] \<and> s \<noteq> ''common-message'' \<and> s \<noteq> ''override-message'' \<longrightarrow>
      (\<exists>r rest. main env (Some s) [] = (r, Print ''Send custom message.'' # rest))
      \<and> (\<forall>e. json_loads env s = Inl e \<longrightarrow>
            main env (Some s) [] = (Inl e, [Print ''Send custom message.''])
            \<and> network_calls (snd (main env (Some s) [])) = [])
      \<and> (\<forall>j. json_loads env s = Inr j \<and> \<not> is_dict j \<longrightarrow>
            main env (Some s) [] = (Inl AttributeError, [Print ''Send custom message.''])
            \<and> network_calls (snd (main env (Some s) [])) = []))"
proof (intro conjI impI allI)
  assume "message = None \<or> message = Some []"
  then show "main env message [] = (Inr (), [Print usage])"
    by (auto simp: main_def print_def)
  then show "network_calls (snd (main env message [])) = []"
    by (simp add: network_calls_def)
next
  assume s: "s \<noteq> [] \<and> s \<noteq> ''common-message'' \<and> s \<noteq> ''override-message''"
  show "\<exists>r rest. main env (Some s) [] = (r, Print ''Send custom message.'' # rest)"
  proof (cases "json_loads env s")
    case (Inl e)
    with s show ?thesis by (simp add: main_custom_raises)
  next
    case (Inr j)
    show ?thesis
    proof (cases j)
      case (JObj d)
      obtain m where m: "build_common_custom_message (dict_get d ''title'')
          (dict_get d ''body'') (dict_get d ''topic'') (dict_get d ''data'')
          (dict_get d ''link'') (dict_get d ''icon'') = Inr m"
        using build_custom_total by blast
      obtain r rest where "send_fcm_message env m
          [Print ''Send custom message.'',
           Print ''FCM request body for message using common notification object:'',
           Print (json_dumps env (Some 2) m)]
        = (r, [Print ''Send custom message.'',
           Print ''FCM request body for message using common notification object:'',
           Print (json_dumps env (Some 2) m)] @ GetAccessToken # rest)"
        using send_starts_with_token by blast
      with s Inr JObj m show ?thesis by (simp add: main_custom)
    qed (use s Inr in \<open>simp_all add: main_custom_no_dict\<close>)
  qed
next
  fix e assume s: "s \<noteq> [] \<and> s \<noteq> ''common-message'' \<and> s \<noteq> ''override-message''"
    and e: "json_loads env s = Inl e"
  then show "main env (Some s) [] = (Inl e, [Print ''Send custom message.''])"
    by (simp add: main_custom_raises)
  then show "network_calls (snd (main env (Some s) [])) = []"
    by (simp add: network_calls_def)
next
  fix j assume s: "s \<noteq> [] \<and> s \<noteq> ''common-message'' \<and> s \<noteq> ''override-message''"
    and j: "json_loads env s = Inr j \<and> \<not> is_dict j"
  then show "main env (Some s) [] = (Inl AttributeError, [Print ''Send custom message.''])"
    by (simp add: main_custom_no_dict)
  then show "network_calls (snd (main env (Some s) [])) = []"
    by (simp add: network_calls_def)
qed

theorem usage_only_without_message_witness:
  "main sample_env None [] = (Inr (), [Print usage])
   \<and> main sample_env (Some []) [] = (Inr (), [Print usage])
   \<and> network_calls (snd (main sample_env None [])) = []
   \<and> json_loads sample_env ''[]'' = Inr (JArr []) \<and> \<not> is_dict (JArr [])
   \<and> main sample_env (Some ''[]'') [] = (Inl AttributeError, [Print ''Send custom message.''])
   \<and> network_calls (snd (main sample_env (Some ''[]'') [])) = []"
  using usage_only_without_message [of None sample_env "''[]''"]
    usage_only_without_message [of "Some []" sample_env "''[]''"]
  by (simp add: sample_env_def sample_json_loads_def network_calls_def)

text \<open>
  The value \<^verbatim>\<open>foo\<close> is none of the accepted forms, yet the run does not print the usage
  text: it prints "Send custom message." and ends with the decoder's exception.
\<close>

theorem unrecognized_value_counterexample:
  "main sample_env (Some ''foo'') [] = (Inl JSONDecodeError, [Print ''Send custom message.''])
   \<and> Print usage \<notin> set (snd (main sample_env (Some ''foo'') []))"
  by (simp add: main_def io_then_def io_bind_def print_def io_lift_def sample_env_def
      sample_json_loads_def usage_def)

text \<open>
  C6, as the code has it. Whenever the token exchange yields a token, \<^verbatim>\<open>_send_fcm_message\<close>
  makes exactly one POST, to the endpoint of the project, whose body is the payload
  serialised by \<^verbatim>\<open>json.dumps\<close> and whose headers are exactly
  \<^verbatim>\<open>Authorization: Bearer <token>\<close> and \<^verbatim>\<open>Content-Type: application/json; UTF-8\<close>, for every
  payload and every token.
\<close>

theorem send_posts_payload_with_headers:
  assumes "access_token env = Inr token"
  shows "posts (snd (send_fcm_message env fcm_message [])) =
     [(''https://fcm.googleapis.com/v1/projects/'' @ PROJECT_ID env @ ''/messages:send'',
       json_dumps env None fcm_message,
       [(''Authorization'', ''Bearer '' @ token),
        (''Content-Type'', ''application/json; UTF-8'')])]"
  using assms
  by (simp add: send_fcm_message_def io_bind_def io_then_def print_def get_access_token_def
      post_def Let_def FCM_URL_def FCM_ENDPOINT_def BASE_URL_def split: sum.splits prod.splits)

theorem send_posts_payload_with_headers_witness:
  "access_token sample_env = Inr ''ya29.token''
   \<and> posts (snd (send_fcm_message sample_env sample_custom_message [])) =
     [(''https://fcm.googleapis.com/v1/projects/demo-project/messages:send'',
       json_dumps sample_env None sample_custom_message,
       [(''Authorization'', ''Bearer ya29.token''),
        (''Content-Type'', ''application/json; UTF-8'')])]"
  using send_posts_payload_with_headers [of sample_env "''ya29.token''" sample_custom_message]
  by (simp add: sample_env_def)

text \<open>
  The headers of the request sent for the common message in the sample environment: the
  content type carries no \<^verbatim>\<open>charset=\<close>.
\<close>

theorem content_type_charset_counterexample:
  "map (snd \<circ> snd) (posts (snd (send_fcm_message sample_env build_common_message [])))
     = [[(''Authorization'', ''Bearer ya29.token''),
         (''Content-Type'', ''application/json; UTF-8'')]]
   \<and> map (snd \<circ> snd) (posts (snd (send_fcm_message sample_env build_common_message [])))
     \<noteq> [[(''Authorization'', ''Bearer ya29.token''),
         (''Content-Type'', ''application/json; charset=UTF-8'')]]"
  by (simp add: send_fcm_message_def io_bind_def io_then_def print_def get_access_token_def
      post_def Let_def sample_env_def sample_response_def)

text \<open>
  C7. Whenever the token exchange yields a token and the endpoint answers the POST with a
  response, \<^verbatim>\<open>_send_fcm_message\<close> asks for the token once, posts once, prints the success
  line if the status is 200 and the failure line otherwise, prints the response text
  unchanged, and returns normally; so \<^verbatim>\<open>main\<close> returns normally on the common, the override
  and the custom path, whatever the status.
\<close>

theorem send_prints_outcome_and_returns:
  assumes "access_token env = Inr token"
      and "requests_post env (FCM_URL env) (json_dumps env None fcm_message)
             [(''Authorization'', ''Bearer '' @ token),
              (''Content-Type'', ''application/json; UTF-8'')] = Inr resp"
  shows "send_fcm_message env fcm_message tr = (Inr (), tr @
       [GetAccessToken,
        Post (FCM_URL env) (json_dumps env None fcm_message)
          [(''Authorization'', ''Bearer '' @ token),
           (''Content-Type'', ''application/json; UTF-8'')],
        Print (if status_code resp = 200
               then ''Message sent to Firebase for delivery, response:''
               else ''Unable to send message to Firebase''),
        Print (resp_text resp)])
     \<and> (fcm_message = build_common_message \<longrightarrow>
          fst (main env (Some ''common-message'') []) = Inr ())
     \<and> (build_override_message = Inr fcm_message \<longrightarrow>
          fst (main env (Some ''override-message'') []) = Inr ())
     \<and> (s \<noteq> [] \<and> s \<noteq> ''common-message'' \<and> s \<noteq> ''override-message''
          \<and> json_loads env s = Inr (JObj d)
          \<and> build_common_custom_message (dict_get d ''title'') (dict_get d ''body'')
               (dict_get d ''topic'') (dict_get d ''data'') (dict_get d ''link'')
               (dict_get d ''icon'') = Inr fcm_message \<longrightarrow>
          fst (main env (Some s) []) = Inr ())"
proof -
  have sent: "send_fcm_message env fcm_message tr' = (Inr (), tr' @
       [GetAccessToken,
        Post (FCM_URL env) (json_dumps env None fcm_message)
          [(''Authorization'', ''Bearer '' @ token),
           (''Content-Type'', ''application/json; UTF-8'')],
        Print (if status_code resp = 200
               then ''Message sent to Firebase for delivery, response:''
               else ''Unable to send message to Firebase''),
        Print (resp_text resp)])" for tr'
    using assms by (rule send_answered)
  have "fst (main env (Some ''common-message'') []) = Inr ()"
    if "fcm_message = build_common_message"
    using that sent by (simp add: main_common)
  moreover have "fst (main env (Some ''override-message'') []) = Inr ()"
    if "build_override_message = Inr fcm_message"
    using that sent by (simp add: main_override)
  moreover have "fst (main env (Some s) []) = Inr ()"
    if "s \<noteq> [] \<and> s \<noteq> ''common-message'' \<and> s \<noteq> ''override-message''
          \<and> json_loads env s = Inr (JObj d)
          \<and> build_common_custom_message (dict_get d ''title'') (dict_get d ''body'')
               (dict_get d ''topic'') (dict_get d ''data'') (dict_get d ''link'')
               (dict_get d ''icon'') = Inr fcm_message"
    using that sent by (simp add: main_custom)
  ultimately show ?thesis using sent by blast
qed

theorem send_prints_outcome_and_returns_witness:
  \<open>access_token sample_env = Inr ''ya29.token''
   \<and> requests_post sample_env (FCM_URL sample_env)
        (json_dumps sample_env None build_common_message)
        [(''Authorization'', ''Bearer ya29.token''),
         (''Content-Type'', ''application/json; UTF-8'')] = Inr sample_response
   \<and> send_fcm_message sample_env build_common_message [] = (Inr (),
       [GetAccessToken,
        Post ''https://fcm.googleapis.com/v1/projects/demo-project/messages:send''
          ''{"message": {"topic": "news", "notification": {"title": "FCM Notification", "body": "Notification from FCM"}}}''
          [(''Authorization'', ''Bearer ya29.token''),
           (''Content-Type'', ''application/json; UTF-8'')],
        Print ''Message sent to Firebase for delivery, response:'',
        Print ''{"name": "projects/demo-project/messages/1"}''])
   \<and> fst (main sample_env (Some ''common-message'') []) = Inr ()
   \<and> access_token sample_env_403 = Inr ''ya29.token''
   \<and> requests_post sample_env_403 (FCM_URL sample_env_403)
        (json_dumps sample_env_403 None build_common_message)
        [(''Authorization'', ''Bearer ya29.token''),
         (''Content-Type'', ''application/json; UTF-8'')] = Inr sample_refusal
   \<and> send_fcm_message sample_env_403 build_common_message [] = (Inr (),
       [GetAccessToken,
        Post ''https://fcm.googleapis.com/v1/projects/demo-project/messages:send''
          ''{"message": {"topic": "news", "notification": {"title": "FCM Notification", "body": "Notification from FCM"}}}''
          [(''Authorization'', ''Bearer ya29.token''),
           (''Content-Type'', ''application/json; UTF-8'')],
        Print ''Unable to send message to Firebase'',
        Print ''{"error": {"code": 403, "status": "PERMISSION_DENIED"}}''])
   \<and> fst (main sample_env_403 (Some ''common-message'') []) = Inr ()\<close>
  using send_prints_outcome_and_returns
      [where env = sample_env and token = "''ya29.token''"
         and fcm_message = build_common_message and resp = sample_response and tr = "[]"
         and s = "[]" and d = "[]"]
    send_prints_outcome_and_returns
      [where env = sample_env_403 and token = "''ya29.token''"
         and fcm_message = build_common_message and resp = sample_refusal and tr = "[]"
         and s = "[]" and d = "[]"]
  by (simp add: sample_env_403_def sample_env_def sample_json_dumps_def sample_response_def
      sample_refusal_def FCM_URL_def FCM_ENDPOINT_def BASE_URL_def)

text \<open>
  C8. When the value of \<^verbatim>\<open>--message\<close> takes the custom path (it is not empty and is neither
  of the two fixed names) and \<^verbatim>\<open>json.loads\<close> raises on it, \<^verbatim>\<open>main\<close> ends with that very
  exception after printing "Send custom message."; the token is never asked for and
  nothing is posted.
\<close>

theorem malformed_json_is_fatal:
  assumes "s \<noteq> []" and "s \<noteq> ''common-message''" and "s \<noteq> ''override-message''"
      and "json_loads env s = Inl e"
  shows "main env (Some s) [] = (Inl e, [Print ''Send custom message.''])
     \<and> network_calls (snd (main env (Some s) [])) = []
     \<and> posts (snd (main env (Some s) [])) = []"
  using assms
  by (simp add: main_def io_then_def io_bind_def print_def io_lift_def network_calls_def)

theorem malformed_json_is_fatal_witness:
  \<open>''{"title": "T"'' \<noteq> [] \<and> ''{"title": "T"'' \<noteq> ''common-message''
   \<and> ''{"title": "T"'' \<noteq> ''override-message''
   \<and> json_loads sample_env ''{"title": "T"'' = Inl JSONDecodeError
   \<and> main sample_env (Some ''{"title": "T"'') []
       = (Inl JSONDecodeError, [Print ''Send custom message.''])
   \<and> network_calls (snd (main sample_env (Some ''{"title": "T"'') [])) = []
   \<and> posts (snd (main sample_env (Some ''{"title": "T"'') [])) = []\<close>
  using malformed_json_is_fatal [where env = sample_env and s = \<open>''{"title": "T"''\<close>
      and e = JSONDecodeError]
  by (simp add: sample_env_def sample_json_loads_def network_calls_def)

text \<open>
  C10. When the value of \<^verbatim>\<open>--message\<close> takes the custom path and parses to a JSON object,
  the builder succeeds on the six values that \<^verbatim>\<open>get\<close> yields, \<^verbatim>\<open>main\<close> prints the payload and
  goes on to \<^verbatim>\<open>_send_fcm_message\<close> (the token is asked for) without any check of the
  fields; for each of \<^verbatim>\<open>title\<close>, \<^verbatim>\<open>body\<close>, \<^verbatim>\<open>topic\<close>, \<^verbatim>\<open>data\<close> that the object omits, the payload
  holds the key with the value null, whereas an omitted \<^verbatim>\<open>link\<close> or \<^verbatim>\<open>icon\<close> leaves no key
  \<^verbatim>\<open>click_action\<close> or \<^verbatim>\<open>icon\<close> in the notification.
\<close>

theorem custom_missing_fields_are_null:
  assumes "s \<noteq> []" and "s \<noteq> ''common-message''" and "s \<noteq> ''override-message''"
      and "json_loads env s = Inr (JObj d)"
  shows "\<exists>m inner n.
       build_common_custom_message (dict_get d ''title'') (dict_get d ''body'')
         (dict_get d ''topic'') (dict_get d ''data'') (dict_get d ''link'')
         (dict_get d ''icon'') = Inr m
     \<and> main env (Some s) [] =
         send_fcm_message env m
           [Print ''Send custom message.'',
            Print ''FCM request body for message using common notification object:'',
            Print (json_dumps env (Some 2) m)]
     \<and> GetAccessToken \<in> set (snd (main env (Some s) []))
     \<and> m = JObj [(''message'', JObj inner)]
     \<and> map_of inner ''notification'' = Some (JObj n)
     \<and> (map_of d ''title'' = None \<longrightarrow> map_of n ''title'' = Some JNull)
     \<and> (map_of d ''body'' = None \<longrightarrow> map_of n ''body'' = Some JNull)
     \<and> (map_of d ''topic'' = None \<longrightarrow> map_of inner ''topic'' = Some JNull)
     \<and> (map_of d ''data'' = None \<longrightarrow> map_of inner ''data'' = Some JNull)
     \<and> (map_of d ''link'' = None \<longrightarrow> map_of n ''click_action'' = None)
     \<and> (map_of d ''icon'' = None \<longrightarrow> map_of n ''icon'' = None)"
proof -
  obtain m where m: "build_common_custom_message (dict_get d ''title'') (dict_get d ''body'')
         (dict_get d ''topic'') (dict_get d ''data'') (dict_get d ''link'')
         (dict_get d ''icon'') = Inr m"
    using build_custom_total by blast
  have run: "main env (Some s) [] =
         send_fcm_message env m
           [Print ''Send custom message.'',
            Print ''FCM request body for message using common notification object:'',
            Print (json_dumps env (Some 2) m)]"
    using assms m by (rule main_custom)
  obtain r rest where "send_fcm_message env m
           [Print ''Send custom message.'',
            Print ''FCM request body for message using common notification object:'',
            Print (json_dumps env (Some 2) m)]
      = (r, [Print ''Send custom message.'',
            Print ''FCM request body for message using common notification object:'',
            Print (json_dumps env (Some 2) m)] @ GetAccessToken # rest)"
    using send_starts_with_token by blast
  with run have token: "GetAccessToken \<in> set (snd (main env (Some s) []))"
    by simp
  obtain inner n where sh0: "m = JObj [(''message'', JObj inner)]"
      "map_of inner ''notification'' = Some (JObj n)"
      "map_of n ''title'' = Some (dict_get d ''title'')"
      "map_of n ''body'' = Some (dict_get d ''body'')"
      "map_of inner ''topic'' = Some (dict_get d ''topic'')"
      "map_of inner ''data'' = Some (dict_get d ''data'')"
      "map_of n ''click_action'' =
         (if truthy (dict_get d ''link'') then Some (dict_get d ''link'') else None)"
      "map_of n ''icon'' =
         (if truthy (dict_get d ''icon'') then Some (dict_get d ''icon'') else None)"
    using build_custom_shape [of "dict_get d ''title''" "dict_get d ''body''"
        "dict_get d ''topic''" "dict_get d ''data''" "dict_get d ''link''"
        "dict_get d ''icon''"] m
    by auto
  have sh: "m = JObj [(''message'', JObj inner)]"
      "map_of inner ''notification'' = Some (JObj n)"
      "map_of d ''title'' = None \<longrightarrow> map_of n ''title'' = Some JNull"
      "map_of d ''body'' = None \<longrightarrow> map_of n ''body'' = Some JNull"
      "map_of d ''topic'' = None \<longrightarrow> map_of inner ''topic'' = Some JNull"
      "map_of d ''data'' = None \<longrightarrow> map_of inner ''data'' = Some JNull"
      "map_of d ''link'' = None \<longrightarrow> map_of n ''click_action'' = None"
      "map_of d ''icon'' = None \<longrightarrow> map_of n ''icon'' = None"
    using sh0 by (simp_all add: dict_get_missing)
  show ?thesis
    by (rule exI[of _ m], rule exI[of _ inner], rule exI[of _ n])
      (intro conjI m run token sh)
qed

theorem custom_missing_fields_are_null_witness:
  \<open>''{"link": "https://x"}'' \<noteq> [] \<and> ''{"link": "https://x"}'' \<noteq> ''common-message''
   \<and> ''{"link": "https://x"}'' \<noteq> ''override-message''
   \<and> json_loads sample_env ''{"link": "https://x"}'' = Inr (JObj [(''link'', JStr ''https://x'')])
   \<and> (\<exists>m inner n.
         build_common_custom_message JNull JNull JNull JNull (JStr ''https://x'') JNull = Inr m
       \<and> main sample_env (Some ''{"link": "https://x"}'') [] =
           send_fcm_message sample_env m
             [Print ''Send custom message.'',
              Print ''FCM request body for message using common notification object:'',
              Print (json_dumps sample_env (Some 2) m)]
       \<and> GetAccessToken \<in> set (snd (main sample_env (Some ''{"link": "https://x"}'') []))
       \<and> m = JObj [(''message'', JObj inner)]
       \<and> map_of inner ''notification'' = Some (JObj n)
       \<and> map_of n ''title'' = Some JNull \<and> map_of n ''body'' = Some JNull
       \<and> map_of inner ''topic'' = Some JNull \<and> map_of inner ''data'' = Some JNull
       \<and> map_of n ''click_action'' = Some (JStr ''https://x'')
       \<and> map_of n ''icon'' = None)\<close>
proof -
  have loads: \<open>json_loads sample_env ''{"link": "https://x"}''
      = Inr (JObj [(''link'', JStr ''https://x'')])\<close>
    by (simp add: sample_env_def sample_json_loads_def)
  have gets: "dict_get [(''link'', JStr ''https://x'')] ''title'' = JNull"
    "dict_get [(''link'', JStr ''https://x'')] ''body'' = JNull"
    "dict_get [(''link'', JStr ''https://x'')] ''topic'' = JNull"
    "dict_get [(''link'', JStr ''https://x'')] ''data'' = JNull"
    "dict_get [(''link'', JStr ''https://x'')] ''link'' = JStr ''https://x''"
    "dict_get [(''link'', JStr ''https://x'')] ''icon'' = JNull"
    by (simp_all add: dict_get_def)
  have "\<exists>m inner n.
         build_common_custom_message JNull JNull JNull JNull (JStr ''https://x'') JNull = Inr m
       \<and> main sample_env (Some ''{\"link\": \"https://x\"}'') [] =
           send_fcm_message sample_env m
             [Print ''Send custom message.'',
              Print ''FCM request body for message using common notification object:'',
              Print (json_dumps sample_env (Some 2) m)]
       \<and> GetAccessToken \<in> set (snd (main sample_env (Some ''{\"link\": \"https://x\"}'') []))
       \<and> m = JObj [(''message'', JObj inner)]
       \<and> map_of inner ''notification'' = Some (JObj n)
       \<and> map_of n ''title'' = Some JNull \<and> map_of n ''body'' = Some JNull
       \<and> map_of inner ''topic'' = Some JNull \<and> map_of inner ''data'' = Some JNull
       \<and> map_of n ''icon'' = None"
    using custom_missing_fields_are_null [where env = sample_env
        and s = \<open>''{"link": "https://x"}''\<close> and d = "[(''link'', JStr ''https://x'')]",
        OF _ _ _ loads]
    by (simp add: gets)
  then obtain m inner n where
    m: "build_common_custom_message JNull JNull JNull JNull (JStr ''https://x'') JNull = Inr m"
    and rest: \<open>main sample_env (Some ''{"link": "https://x"}'') [] =
           send_fcm_message sample_env m
             [Print ''Send custom message.'',
              Print ''FCM request body for message using common notification object:'',
              Print (json_dumps sample_env (Some 2) m)]\<close>
      \<open>GetAccessToken \<in> set (snd (main sample_env (Some ''{"link": "https://x"}'') []))\<close>
      "m = JObj [(''message'', JObj inner)]"
      "map_of inner ''notification'' = Some (JObj n)"
      "map_of n ''title'' = Some JNull" "map_of n ''body'' = Some JNull"
      "map_of inner ''topic'' = Some JNull" "map_of inner ''data'' = Some JNull"
      "map_of n ''icon'' = None"
    by blast
  from m have "m = sample_custom_message"
    by (simp add: build_common_custom_message_def sample_custom_message_def)
  with rest(3,4) have "map_of n ''click_action'' = Some (JStr ''https://x'')"
    by (auto simp: sample_custom_message_def)
  with loads m rest show ?thesis by (intro conjI exI[of _ m] exI[of _ inner] exI[of _ n]) simp_all
qed

end
